theory Spec2Isabelle
  imports Complex_Main "HOL-Library.Log_Nat"
begin

section \<open>Options risk tool: the risk metrics and the trade history\<close>

text \<open>
  The program is one Streamlit script, \<^verbatim>\<open>options_risk_tool.py\<close>. Streamlit runs the
  script from top to bottom on every interaction; the widgets give it its inputs and
  \<^verbatim>\<open>st.session_state\<close> is the only state that survives from one run to the next.

  Numbers: the widgets return Python floats (and an int for the number of contracts).
  In the first part finite floats are modelled as \<^typ>\<open>real\<close>, without rounding and
  overflow; \<^verbatim>\<open>float('inf')\<close> is a value of its own where the script produces it. The sign
  of the position size depends on rounding, so the position sizing is modelled a second
  time in double precision, in a part of its own. A float division whose divisor is zero
  raises \<^verbatim>\<open>ZeroDivisionError\<close> in Python, and the script catches no exception, so a raise
  ends the run.
\<close>

subsection \<open>Python values and errors\<close>

text \<open>
  The exceptions of the arithmetic: a division by zero, and the conversion of an int
  that is too large for a float.
\<close>

datatype py_error = ZeroDivisionError | OverflowError

text \<open>What \<^verbatim>\<open>calculate_risk_reward\<close> can return: a finite number or \<^verbatim>\<open>float('inf')\<close>.\<close>

datatype py_float = Fin real | PosInf

text \<open>Python's \<^verbatim>\<open>a / b\<close> on floats.\<close>

definition truediv :: "real \<Rightarrow> real \<Rightarrow> py_error + real" where
  "truediv a b = (if b = 0 then Inl ZeroDivisionError else Inr (a / b))"

text \<open>Python's \<^verbatim>\<open>min(a, b)\<close>: the first argument, unless the second is smaller.\<close>

definition py_min :: "real \<Rightarrow> real \<Rightarrow> real" where
  "py_min a b = (if b < a then b else a)"

subsection \<open>The helper functions (lines 11 to 27)\<close>

text \<open>
  \<^verbatim>\<open>
  def calculate_greeks(option_type, stock_price, strike_price, time_to_expiry,
                       volatility, interest_rate):
      delta = 0.5 if option_type == "Call" else -0.5
      gamma = 0.1
      theta = -0.01 * time_to_expiry
      vega = 0.2 * volatility
      rho = 0.05 * interest_rate
      return {"Delta": delta, "Gamma": gamma, "Theta": theta, "Vega": vega, "Rho": rho}
  \<close>
  The function compares a string and multiplies floats; none of these operations raises,
  so the model has no error result. The dictionary is a map from its keys.
\<close>

definition calculate_greeks ::
  "string \<Rightarrow> real \<Rightarrow> real \<Rightarrow> real \<Rightarrow> real \<Rightarrow> real \<Rightarrow> (string \<rightharpoonup> real)" where
  "calculate_greeks option_type stock_price strike_price time_to_expiry volatility interest_rate =
     (let delta = (if option_type = ''Call'' then 0.5 else - 0.5);
          gamma = 0.1;
          theta = - 0.01 * time_to_expiry;
          vega = 0.2 * volatility;
          rho = 0.05 * interest_rate
      in [''Delta'' \<mapsto> delta, ''Gamma'' \<mapsto> gamma, ''Theta'' \<mapsto> theta,
          ''Vega'' \<mapsto> vega, ''Rho'' \<mapsto> rho])"

text \<open>
  \<^verbatim>\<open>
  def calculate_risk_reward(entry_price, target_price, stop_loss_price):
      if entry_price == 0 or (target_price - entry_price) == 0:
          return 0
      risk = entry_price - stop_loss_price
      reward = target_price - entry_price
      return reward / risk if risk > 0 else float('inf')
  \<close>
  The division is written with \<^const>\<open>truediv\<close>, so that a zero divisor would show as
  an error of the model. The integer \<^verbatim>\<open>0\<close> of the first branch is the number zero.
\<close>

definition calculate_risk_reward :: "real \<Rightarrow> real \<Rightarrow> real \<Rightarrow> py_error + py_float" where
  "calculate_risk_reward entry_price target_price stop_loss_price =
     (if entry_price = 0 \<or> target_price - entry_price = 0 then Inr (Fin 0)
      else
        let risk = entry_price - stop_loss_price;
            reward = target_price - entry_price
        in if risk > 0
           then (case truediv reward risk of Inl e \<Rightarrow> Inl e | Inr q \<Rightarrow> Inr (Fin q))
           else Inr PosInf)"

subsection \<open>Position sizing (lines 54 to 56)\<close>

text \<open>
  \<^verbatim>\<open>
  max_risk = total_capital * risk_tolerance
  position_size = min(max_risk / (entry_price - stop_loss_price),
                      contracts * 100 * entry_price)
  \<close>
  The first argument of \<^verbatim>\<open>min\<close> is evaluated first, so the division raises before
  anything else happens. \<^verbatim>\<open>contracts\<close> is the int of a number widget.
\<close>

definition max_risk :: "real \<Rightarrow> real \<Rightarrow> real" where
  "max_risk total_capital risk_tolerance = total_capital * risk_tolerance"

definition position_size :: "real \<Rightarrow> real \<Rightarrow> real \<Rightarrow> real \<Rightarrow> int \<Rightarrow> py_error + real" where
  "position_size total_capital risk_tolerance entry_price stop_loss_price contracts =
     (case truediv (max_risk total_capital risk_tolerance) (entry_price - stop_loss_price) of
        Inl e \<Rightarrow> Inl e
      | Inr capacity \<Rightarrow> Inr (py_min capacity (of_int contracts * 100 * entry_price)))"

subsection \<open>Position sizing in double precision\<close>

text \<open>
  Whether the position size is strictly negative depends on how small results are
  rounded, which the real numbers above do not show. This section computes lines 55 and
  56 in the arithmetic Python floats have: IEEE 754 binary64, rounding to nearest with
  ties to even, with gradual underflow and overflow to infinity.

  Every finite double is a whole multiple of the smallest positive double,
  \<^verbatim>\<open>2 ** -1074\<close>, called a unit below: \<open>Finite s k\<close> is the number of \<open>k\<close> units with sign
  bit \<open>s\<close> (\<open>True\<close> for minus), so \<open>Finite True 0\<close> is the negative zero \<^verbatim>\<open>-0.0\<close>. The
  doubles are the multiples \<open>k\<close> with at most 53 significant bits, up to
  \<^verbatim>\<open>(2 ** 53 - 1) * 2 ** 2045\<close> units, the largest float.
\<close>

datatype double = Finite bool nat | Infinity bool | NaN

text \<open>Rounding a non-negative real to the nearest natural number, ties to the even one.\<close>

definition round_half_even :: "real \<Rightarrow> nat" where
  "round_half_even x =
     (let n = nat \<lfloor>x\<rfloor>; rest = x - real n
      in if rest < 1 / 2 then n
         else if 1 / 2 < rest then n + 1
         else if even n then n else n + 1)"

text \<open>
  Rounding an exact magnitude \<open>x\<close>, given in units, to a double of sign \<open>s\<close>. Below
  \<^verbatim>\<open>2 ** 53\<close> units (the subnormal numbers and the first binade) the doubles are one
  unit apart. Above, the magnitude is rounded to 53 significant bits. A magnitude from
  \<^verbatim>\<open>2 ** 1024 - 2 ** 970\<close> on, that is \<^verbatim>\<open>2 ** 2098 - 2 ** 2044\<close> units, rounds to
  infinity.
\<close>

definition round_double :: "bool \<Rightarrow> real \<Rightarrow> double" where
  "round_double s x =
     (if x < 2 ^ 53 then Finite s (round_half_even x)
      else if 2 ^ 2098 - 2 ^ 2044 \<le> x then Infinity s
      else let shift = nat (bitlen \<lfloor>x\<rfloor> - 53)
           in Finite s (round_half_even (x / 2 ^ shift) * 2 ^ shift))"

text \<open>The finite doubles: the values rounding leaves as they are.\<close>

definition finite_double :: "double \<Rightarrow> bool" where
  "finite_double d =
     (case d of Finite s k \<Rightarrow> round_double s (real k) = Finite s k | _ \<Rightarrow> False)"

text \<open>The float a decimal literal or a widget value denotes: the nearest double.\<close>

definition double_of_real :: "real \<Rightarrow> double" where
  "double_of_real x = round_double (x < 0) (\<bar>x\<bar> * 2 ^ 1074)"

text \<open>The number of units a finite double stands for, with its sign.\<close>

definition signed :: "bool \<Rightarrow> nat \<Rightarrow> int" where
  "signed s k = (if s then - int k else int k)"

text \<open>Python's \<^verbatim>\<open>a < b\<close> on floats: false when either is NaN, and \<^verbatim>\<open>-0.0 < 0.0\<close> is false.\<close>

fun float_lt :: "double \<Rightarrow> double \<Rightarrow> bool" where
  "float_lt (Finite s k) (Finite t l) = (signed s k < signed t l)"
| "float_lt (Finite s k) (Infinity t) = (\<not> t)"
| "float_lt (Infinity s) (Finite t l) = s"
| "float_lt (Infinity s) (Infinity t) = (s \<and> \<not> t)"
| "float_lt NaN b = False"
| "float_lt a NaN = False"

text \<open>Python's \<^verbatim>\<open>a * b\<close> on floats.\<close>

fun float_mul :: "double \<Rightarrow> double \<Rightarrow> double" where
  "float_mul (Finite s k) (Finite t l) = round_double (s \<noteq> t) (real k * real l / 2 ^ 1074)"
| "float_mul (Finite s k) (Infinity t) = (if k = 0 then NaN else Infinity (s \<noteq> t))"
| "float_mul (Infinity s) (Finite t l) = (if l = 0 then NaN else Infinity (s \<noteq> t))"
| "float_mul (Infinity s) (Infinity t) = Infinity (s \<noteq> t)"
| "float_mul NaN b = NaN"
| "float_mul a NaN = NaN"

text \<open>
  Python's \<^verbatim>\<open>a - b\<close> on floats. An exact difference of zero is \<^verbatim>\<open>+0.0\<close> unless the
  operands are \<^verbatim>\<open>-0.0\<close> and \<^verbatim>\<open>+0.0\<close>.
\<close>

fun float_sub :: "double \<Rightarrow> double \<Rightarrow> double" where
  "float_sub (Finite s k) (Finite t l) =
     (let d = signed s k - signed t l
      in if d = 0 then Finite (s \<and> \<not> t) 0 else round_double (d < 0) (real_of_int \<bar>d\<bar>))"
| "float_sub (Finite s k) (Infinity t) = Infinity (\<not> t)"
| "float_sub (Infinity s) (Finite t l) = Infinity s"
| "float_sub (Infinity s) (Infinity t) = (if s = t then NaN else Infinity s)"
| "float_sub NaN b = NaN"
| "float_sub a NaN = NaN"

text \<open>
  Python's \<^verbatim>\<open>a / b\<close> on floats: a divisor equal to zero (\<^verbatim>\<open>0.0\<close> or \<^verbatim>\<open>-0.0\<close>) raises,
  anything else is the IEEE quotient.
\<close>

fun is_zero :: "double \<Rightarrow> bool" where
  "is_zero (Finite s k) = (k = 0)"
| "is_zero d = False"

fun ieee_div :: "double \<Rightarrow> double \<Rightarrow> double" where
  "ieee_div (Finite s k) (Finite t l) =
     (if l = 0 then (if k = 0 then NaN else Infinity (s \<noteq> t))
      else round_double (s \<noteq> t) (real k / real l * 2 ^ 1074))"
| "ieee_div (Finite s k) (Infinity t) = Finite (s \<noteq> t) 0"
| "ieee_div (Infinity s) (Finite t l) = Infinity (s \<noteq> t)"
| "ieee_div (Infinity s) (Infinity t) = NaN"
| "ieee_div NaN b = NaN"
| "ieee_div a NaN = NaN"

definition float_truediv :: "double \<Rightarrow> double \<Rightarrow> py_error + double" where
  "float_truediv a b = (if is_zero b then Inl ZeroDivisionError else Inr (ieee_div a b))"

text \<open>
  The conversion of an int that meets a float in an arithmetic operation: the nearest
  double, and \<^verbatim>\<open>OverflowError\<close> when the int is too large for a float.
\<close>

definition float_of_int :: "int \<Rightarrow> py_error + double" where
  "float_of_int n =
     (case round_double (n < 0) (real_of_int \<bar>n\<bar> * 2 ^ 1074) of
        Infinity s \<Rightarrow> Inl OverflowError
      | d \<Rightarrow> Inr d)"

text \<open>Python's \<^verbatim>\<open>min(a, b)\<close> on floats.\<close>

definition float_min :: "double \<Rightarrow> double \<Rightarrow> double" where
  "float_min a b = (if float_lt b a then b else a)"

text \<open>
  Lines 55 and 56 on floats; \<open>risk_budget\<close> is the script's \<^verbatim>\<open>max_risk\<close>.
  \<^verbatim>\<open>contracts * 100\<close> is a product of ints; it is converted when it is multiplied by the
  entry price.
\<close>

definition position_size_double ::
  "double \<Rightarrow> double \<Rightarrow> double \<Rightarrow> double \<Rightarrow> int \<Rightarrow> py_error + double" where
  "position_size_double total_capital risk_tolerance entry_price stop_loss_price contracts =
     (let risk_budget = float_mul total_capital risk_tolerance
      in case float_truediv risk_budget (float_sub entry_price stop_loss_price) of
           Inl e \<Rightarrow> Inl e
         | Inr capacity \<Rightarrow>
             (case float_of_int (contracts * 100) of
                Inl e \<Rightarrow> Inl e
              | Inr hundreds \<Rightarrow> Inr (float_min capacity (float_mul hundreds entry_price))))"

text \<open>
  The floats of \<^verbatim>\<open>1e-322\<close>, \<^verbatim>\<open>0.01\<close>, \<^verbatim>\<open>10000.0\<close>, \<^verbatim>\<open>3.0\<close> and \<^verbatim>\<open>5.0\<close>: a capital so small
  that one percent of it is below half of the smallest positive double, the default risk
  tolerance, the default capital, and an entry price below the stop-loss price.
\<close>

definition tiny_capital :: double where
  "tiny_capital = Finite False 20"

definition one_percent :: double where
  "one_percent = Finite False (5764607523034235 * 2 ^ 1015)"

definition ten_thousand :: double where
  "ten_thousand = Finite False (10000 * 2 ^ 1074)"

definition three :: double where
  "three = Finite False (3 * 2 ^ 1074)"

definition five :: double where
  "five = Finite False (5 * 2 ^ 1074)"

subsection \<open>One run of the script\<close>

text \<open>
  The values of the sidebar widgets (lines 33 to 52), percentages already divided by
  100. A date is the number of its day (Python's \<^verbatim>\<open>date.toordinal()\<close>).
\<close>

record trade_inputs =
  option_type :: string
  underlying_asset :: string
  stock_price :: real
  strike_price :: real
  expiration_date :: int
  volatility :: real
  interest_rate :: real
  entry_price :: real
  contracts :: int
  stop_loss_price :: real
  take_profit_price :: real
  total_capital :: real
  risk_tolerance :: real
  asset_class :: string
  geographic_region :: string

text \<open>
  The numbers the script computes and shows under "Risk Analysis" (lines 39, 55 to 60
  and 72 to 75). Line 39 reads the clock:
  \<^verbatim>\<open>
  time_to_expiry = (expiration_date - datetime.today().date()).days / 365.0
  \<close>
  so the analysis takes the day of the run as an argument beside the widget values.
  Line 73 divides the position size by \<^verbatim>\<open>100 * entry_price\<close> to show it in contracts.
\<close>

record risk_report =
  report_greeks :: "string \<rightharpoonup> real"
  report_risk_reward_ratio :: py_float
  report_position_size :: real
  report_position_size_contracts :: real
  report_max_risk :: real
  report_time_to_expiry :: real

definition risk_analysis :: "trade_inputs \<Rightarrow> int \<Rightarrow> py_error + risk_report" where
  "risk_analysis inp today_date =
     (let time_to_expiry = real_of_int (expiration_date inp - today_date) / 365
      in case position_size (total_capital inp) (risk_tolerance inp) (entry_price inp)
             (stop_loss_price inp) (contracts inp) of
        Inl e \<Rightarrow> Inl e
      | Inr ps \<Rightarrow>
          let greeks = calculate_greeks (option_type inp) (stock_price inp) (strike_price inp)
                         time_to_expiry (volatility inp) (interest_rate inp)
          in (case calculate_risk_reward (entry_price inp) (take_profit_price inp)
                     (stop_loss_price inp) of
                Inl e \<Rightarrow> Inl e
              | Inr rr \<Rightarrow>
                  (case truediv ps (100 * entry_price inp) of
                     Inl e \<Rightarrow> Inl e
                   | Inr psc \<Rightarrow>
                       Inr \<lparr>report_greeks = greeks,
                            report_risk_reward_ratio = rr,
                            report_position_size = ps,
                            report_position_size_contracts = psc,
                            report_max_risk = max_risk (total_capital inp) (risk_tolerance inp),
                            report_time_to_expiry = time_to_expiry\<rparr>)))"

subsection \<open>The trade history (lines 103 to 124)\<close>

text \<open>
  \<^verbatim>\<open>
  if "trade_history" not in st.session_state:
      st.session_state.trade_history = []
  if st.button("Save Trade"):
      trade = {"Trade ID": str(uuid.uuid4()), "Asset": underlying_asset,
               "Option Type": option_type, "Strike Price": strike_price,
               "Entry Price": entry_price, "Position Size": position_size,
               "Risk-to-Reward": risk_reward_ratio, "Date": datetime.now()}
      st.session_state.trade_history.append(trade)
  \<close>
  A saved trade is a dictionary with eight fixed keys, modelled as a record.
\<close>

record trade =
  Trade_ID :: string
  Asset :: string
  Option_Type :: string
  Strike_Price :: real
  Entry_Price :: real
  Position_Size :: real
  Risk_to_Reward :: py_float
  Date :: nat

text \<open>
  What a run reads from outside the widgets: the day of the run
  (\<^verbatim>\<open>datetime.today().date()\<close>, line 39), whether the "Save Trade" button was clicked, the
  string \<^verbatim>\<open>str(uuid.uuid4())\<close> drawn for the trade, and the clock \<^verbatim>\<open>datetime.now()\<close> of
  line 115. The \<^verbatim>\<open>uuid\<close> module belongs to the Python library, not to the script: the
  value it returns is an input of the run.
\<close>

record rerun_env =
  today :: int
  save_clicked :: bool
  uuid4 :: string
  now :: nat

text \<open>
  The session state holds at most the key \<^verbatim>\<open>trade_history\<close>: \<open>None\<close> is a session
  in which the key is not set yet.
\<close>

type_synonym session_state = "trade list option"

text \<open>Lines 104 and 105: the list under the key, created empty when the key is absent.\<close>

definition init_trade_history :: "session_state \<Rightarrow> trade list" where
  "init_trade_history ss = (case ss of None \<Rightarrow> [] | Some trade_history \<Rightarrow> trade_history)"

text \<open>Lines 107 to 116: the dictionary of the trade being saved.\<close>

definition make_trade :: "trade_inputs \<Rightarrow> risk_report \<Rightarrow> rerun_env \<Rightarrow> trade" where
  "make_trade inp rep env =
     \<lparr>Trade_ID = uuid4 env,
      Asset = underlying_asset inp,
      Option_Type = option_type inp,
      Strike_Price = strike_price inp,
      Entry_Price = entry_price inp,
      Position_Size = report_position_size rep,
      Risk_to_Reward = report_risk_reward_ratio rep,
      Date = now env\<rparr>"

text \<open>Lines 106 to 117: the trade is appended when the button was clicked.\<close>

definition save_trade :: "trade_inputs \<Rightarrow> risk_report \<Rightarrow> rerun_env \<Rightarrow> trade list \<Rightarrow> trade list" where
  "save_trade inp rep env trade_history =
     (if save_clicked env then trade_history @ [make_trade inp rep env] else trade_history)"


text \<open>
  One run of the script on a session: the risk analysis comes first, and an exception
  raised there ends the run before line 104, leaving the session as it was. Otherwise
  the run returns the report and the session after lines 104 to 117. The calls that only
  draw the page (\<^verbatim>\<open>st.write\<close>, \<^verbatim>\<open>st.table\<close>, the pie chart) belong to the libraries and
  are taken not to raise.
\<close>

definition script_run ::
  "trade_inputs \<Rightarrow> rerun_env \<Rightarrow> session_state \<Rightarrow> (py_error + risk_report) \<times> session_state" where
  "script_run inp env ss =
     (case risk_analysis inp (today env) of
        Inl e \<Rightarrow> (Inl e, ss)
      | Inr rep \<Rightarrow> (Inr rep, Some (save_trade inp rep env (init_trade_history ss))))"

text \<open>A session is a sequence of runs, each with its own widget values and environment.\<close>

fun run_all :: "session_state \<Rightarrow> (trade_inputs \<times> rerun_env) list \<Rightarrow> session_state" where
  "run_all ss [] = ss"
| "run_all ss ((inp, env) # runs) = run_all (snd (script_run inp env ss)) runs"

text \<open>
  Vocabulary for the statements about the history: a run \<open>saves\<close> when the button was
  clicked and the run reaches line 117; \<open>appended\<close> is the list of records the run adds
  (one record or none).
\<close>

definition saves :: "trade_inputs \<times> rerun_env \<Rightarrow> bool" where
  "saves r = (case r of (inp, env) \<Rightarrow>
     save_clicked env \<and>
     (case risk_analysis inp (today env) of Inl e \<Rightarrow> False | Inr rep \<Rightarrow> True))"

definition appended :: "trade_inputs \<times> rerun_env \<Rightarrow> trade list" where
  "appended r = (case r of (inp, env) \<Rightarrow>
     (case risk_analysis inp (today env) of
        Inl e \<Rightarrow> []
      | Inr rep \<Rightarrow> save_trade inp rep env []))"

text \<open>
  The values the widgets hold when the page is first opened (the \<^verbatim>\<open>value=\<close> arguments
  and first options of lines 34 to 52, percentages already divided by 100). The default
  expiration date is the day of the run; days are counted from that day, so it is day 0.
\<close>

definition default_inputs :: trade_inputs where
  "default_inputs =
     \<lparr>option_type = ''Call'',
      underlying_asset = ''SPY'',
      stock_price = 100,
      strike_price = 100,
      expiration_date = 0,
      volatility = 0.2,
      interest_rate = 0.05,
      entry_price = 5,
      contracts = 1,
      stop_loss_price = 3,
      take_profit_price = 8,
      total_capital = 10000,
      risk_tolerance = 0.01,
      asset_class = ''Stocks'',
      geographic_region = ''US''\<rparr>"

text \<open>Four strings of the form \<^verbatim>\<open>str(uuid.uuid4())\<close> returns.\<close>

definition uuid_a :: string where
  "uuid_a = ''0b9f4c1e-6d2a-4f3b-8e57-1c2d3e4f5a6b''"

definition uuid_b :: string where
  "uuid_b = ''7a1e9d34-2c5b-4a68-9f10-3b4c5d6e7f80''"

definition uuid_c :: string where
  "uuid_c = ''c3d2e1f0-9a8b-4c7d-a6e5-f4a3b2c1d0e9''"

definition uuid_d :: string where
  "uuid_d = ''5e6f7a8b-1c2d-4e3f-b4a5-6b7c8d9e0f1a''"

text \<open>
  A sample session of four runs on day 0: a save with the default values, a run whose
  entry price equals its stop-loss price (it raises at line 56), a run without a click,
  and a save of a put.
\<close>

definition example_session :: "(trade_inputs \<times> rerun_env) list" where
  "example_session =
     [(default_inputs, \<lparr>today = 0, save_clicked = True, uuid4 = uuid_a, now = 1\<rparr>),
      (default_inputs\<lparr>stop_loss_price := 5\<rparr>,
         \<lparr>today = 0, save_clicked = True, uuid4 = uuid_b, now = 2\<rparr>),
      (default_inputs, \<lparr>today = 0, save_clicked = False, uuid4 = uuid_c, now = 3\<rparr>),
      (default_inputs\<lparr>option_type := ''Put''\<rparr>,
         \<lparr>today = 0, save_clicked = True, uuid4 = uuid_d, now = 4\<rparr>)]"

text \<open>
  The same trade looked at thirty days later with an expiration date thirty days later,
  under another symbol, other prices of the underlying and another asset class.
\<close>

definition later_inputs :: trade_inputs where
  "later_inputs =
     default_inputs\<lparr>underlying_asset := ''QQQ'', stock_price := 50, strike_price := 55,
       expiration_date := 30, asset_class := ''ETFs''\<rparr>"

section \<open>Properties\<close>

subsection \<open>Helper lemmas\<close>

lemma py_min_eq_min: "py_min a b = min a b"
  by (simp add: py_min_def min_def)

lemma calculate_greeks_lookup:
  "calculate_greeks ot sp k t v r ''Delta'' = Some (if ot = ''Call'' then 0.5 else - 0.5)
   \<and> calculate_greeks ot sp k t v r ''Gamma'' = Some 0.1
   \<and> calculate_greeks ot sp k t v r ''Theta'' = Some (- 0.01 * t)
   \<and> calculate_greeks ot sp k t v r ''Vega'' = Some (0.2 * v)
   \<and> calculate_greeks ot sp k t v r ''Rho'' = Some (0.05 * r)"
  by (simp add: calculate_greeks_def Let_def)

lemma position_size_value:
  "entry \<noteq> stop \<Longrightarrow>
   position_size tc rt entry stop c =
     Inr (py_min (tc * rt / (entry - stop)) (of_int c * 100 * entry))"
  by (simp add: position_size_def truediv_def max_risk_def)

lemma position_size_zero_div:
  "position_size tc rt entry entry c = Inl ZeroDivisionError"
  by (simp add: position_size_def truediv_def)

lemma save_trade_append: "save_trade inp rep env h = h @ save_trade inp rep env []"
  by (simp add: save_trade_def)

lemma script_run_report: "fst (script_run inp env ss) = risk_analysis inp (today env)"
  by (simp add: script_run_def split: sum.split)

lemma script_run_history:
  "init_trade_history (snd (script_run inp env ss)) = init_trade_history ss @ appended (inp, env)"
proof (cases "risk_analysis inp (today env)")
  case (Inl e)
  then show ?thesis by (simp add: script_run_def appended_def)
next
  case (Inr rep)
  have "init_trade_history (snd (script_run inp env ss)) =
          save_trade inp rep env (init_trade_history ss)"
    using Inr by (simp add: script_run_def init_trade_history_def)
  also have "\<dots> = init_trade_history ss @ save_trade inp rep env []"
    by (rule save_trade_append)
  finally show ?thesis using Inr by (simp add: appended_def)
qed



lemma appended_not_saves: "\<not> saves r \<Longrightarrow> appended r = []"
  by (cases r) (auto simp: saves_def appended_def save_trade_def split: sum.splits)




subsection \<open>The risk-to-reward ratio\<close>

text \<open>
  Claim C1. For every entry, target and stop-loss price, \<open>calculate_risk_reward\<close>
  returns 0 when the entry price is 0 or the reward (target minus entry) is 0; otherwise,
  with risk = entry minus stop-loss, it returns reward / risk when the risk is positive
  and infinity when the risk is zero or negative. The guard on a zero entry or a zero
  reward is tested before the sign of the risk, so an input with zero reward and a
  non-positive risk gives 0 and not infinity.
\<close>

theorem calculate_risk_reward_cases:
  "calculate_risk_reward entry target stop =
     Inr (if entry = 0 \<or> target - entry = 0 then Fin 0
          else if entry - stop > 0 then Fin ((target - entry) / (entry - stop))
          else PosInf)
   \<and> (target - entry = 0 \<and> entry - stop \<le> 0 \<longrightarrow>
        calculate_risk_reward entry target stop = Inr (Fin 0))"
  by (simp add: calculate_risk_reward_def truediv_def Let_def)

theorem calculate_risk_reward_cases_witness:
  "(5::real) - 5 = 0 \<and> (5::real) - 6 \<le> 0 \<and> calculate_risk_reward 5 5 6 = Inr (Fin 0)"
  using calculate_risk_reward_cases [of 5 5 6] by simp

text \<open>
  Claim C9. When the entry price is positive and both the target and the stop-loss lie
  below it, \<open>calculate_risk_reward\<close> returns a strictly negative ratio: the negative
  reward over the positive risk, not clamped at zero.
\<close>

theorem calculate_risk_reward_negative:
  assumes "0 < entry" and "target < entry" and "stop < entry"
  shows "calculate_risk_reward entry target stop = Inr (Fin ((target - entry) / (entry - stop)))
         \<and> (target - entry) / (entry - stop) < 0"
proof -
  have reward: "target - entry < 0" and risk: "0 < entry - stop"
    using assms by simp_all
  have "calculate_risk_reward entry target stop =
          Inr (Fin ((target - entry) / (entry - stop)))"
    using assms by (simp add: calculate_risk_reward_def truediv_def Let_def)
  moreover have "(target - entry) / (entry - stop) < 0"
    using reward risk by (rule divide_neg_pos)
  ultimately show ?thesis by simp
qed

theorem calculate_risk_reward_negative_witness:
  "(0::real) < 5 \<and> (4::real) < 5 \<and> (3::real) < 5
   \<and> calculate_risk_reward 5 4 3 = Inr (Fin (- (1 / 2)))"
  using calculate_risk_reward_negative [of 5 4 3] by simp

subsection \<open>The position size\<close>

text \<open>
  Claim C2. For every capital, risk tolerance, entry price, stop-loss price and number
  of contracts with entry price different from the stop-loss price, the position size is
  the minimum of capital * tolerance / (entry - stop) and contracts * 100 * entry; in
  particular the inputs 10000, 0.01, 5, 3 and 1 give 50.
\<close>

theorem position_size_min:
  "(entry \<noteq> stop \<longrightarrow>
      position_size tc rt entry stop c =
        Inr (min (tc * rt / (entry - stop)) (of_int c * 100 * entry)))
   \<and> position_size 10000 0.01 5 3 1 = Inr 50"
proof -
  have "position_size 10000 0.01 5 3 1 = Inr 50"
    by (simp add: position_size_value py_min_def)
  then show ?thesis
    by (simp add: position_size_value py_min_eq_min)
qed

theorem position_size_min_witness:
  "(10::real) \<noteq> 8 \<and> position_size 2000 0.05 10 8 3 = Inr 50"
  using position_size_min [of 10 8 2000 "0.05" 3] by simp

text \<open>
  Claim C3. Whatever the capital, the risk tolerance and the number of contracts are,
  an entry price equal to the stop-loss price makes the position sizing raise a
  division-by-zero error. The error reaches the caller: the risk analysis and the whole
  run end with it, no number (neither 0 nor any other value) is returned, and the
  session is left as it was.
\<close>

theorem position_size_equal_prices_raises:
  "position_size tc rt entry entry c = Inl ZeroDivisionError
   \<and> (\<forall>v. position_size tc rt entry entry c \<noteq> Inr v)
   \<and> (entry_price inp = stop_loss_price inp \<longrightarrow>
        risk_analysis inp day = Inl ZeroDivisionError
        \<and> script_run inp env ss = (Inl ZeroDivisionError, ss))"
proof -
  have raises: "position_size tc rt entry entry c = Inl ZeroDivisionError"
    by (rule position_size_zero_div)
  have "risk_analysis inp d = Inl ZeroDivisionError"
    if "entry_price inp = stop_loss_price inp" for d
    using that by (simp add: risk_analysis_def position_size_zero_div)
  then show ?thesis
    using raises by (simp add: script_run_def)
qed

theorem position_size_equal_prices_raises_witness:
  "entry_price (default_inputs\<lparr>stop_loss_price := 5\<rparr>)
     = stop_loss_price (default_inputs\<lparr>stop_loss_price := 5\<rparr>)
   \<and> position_size 10000 0.01 5 5 1 = Inl ZeroDivisionError
   \<and> risk_analysis (default_inputs\<lparr>stop_loss_price := 5\<rparr>) 0 = Inl ZeroDivisionError
   \<and> script_run (default_inputs\<lparr>stop_loss_price := 5\<rparr>)
         \<lparr>today = 0, save_clicked = True, uuid4 = uuid_a, now = 0\<rparr> None
       = (Inl ZeroDivisionError, None)"
  using position_size_equal_prices_raises
          [of 10000 "0.01" 5 1 "default_inputs\<lparr>stop_loss_price := 5\<rparr>" 0
              "\<lparr>today = 0, save_clicked = True, uuid4 = uuid_a, now = 0\<rparr>" None]
  by (simp add: default_inputs_def)


subsection \<open>Rounding to a double\<close>

lemma round_half_even_nat: "round_half_even (real n) = n"
  by (simp add: round_half_even_def)

lemma round_half_even_ge: "1 \<le> x \<Longrightarrow> 1 \<le> round_half_even x"
proof -
  assume "1 \<le> x"
  then have "1 \<le> \<lfloor>x\<rfloor>" by (simp add: le_floor_iff)
  then have "1 \<le> nat \<lfloor>x\<rfloor>" by linarith
  then show ?thesis by (simp add: round_half_even_def Let_def)
qed

lemma round_double_sign:
  "(\<exists>n. round_double s x = Finite s n) \<or> round_double s x = Infinity s"
  by (simp add: round_double_def Let_def)

lemma round_double_finite:
  "x < 2 ^ 2098 - 2 ^ 2044 \<Longrightarrow> \<exists>n. round_double s x = Finite s n"
  by (simp add: round_double_def Let_def)

lemma round_double_not_zero:
  assumes "1 \<le> x"
  shows "round_double s x \<noteq> Finite t 0"
proof (cases "x < 2 ^ 53")
  case True
  with round_half_even_ge [OF assms] show ?thesis
    by (simp add: round_double_def)
next
  case False
  let ?b = "bitlen \<lfloor>x\<rfloor>"
  from assms have pos: "0 < \<lfloor>x\<rfloor>" by simp
  from False have "(2::int) ^ 53 \<le> \<lfloor>x\<rfloor>" by (simp add: le_floor_iff)
  then have "54 \<le> ?b" by (simp add: bitlen_ge_iff_power)
  then have shift: "nat (?b - 53) \<le> nat (?b - 1)" by simp
  have "(2::real) ^ nat (?b - 53) \<le> 2 ^ nat (?b - 1)"
    using shift by (simp add: power_increasing)
  also have "\<dots> \<le> real_of_int \<lfloor>x\<rfloor>"
    using bitlen_bounds [OF pos] by (metis of_int_le_iff of_int_numeral of_int_power)
  also have "\<dots> \<le> x" by simp
  finally have "1 \<le> x / 2 ^ nat (?b - 53)" by simp
  then have "1 \<le> round_half_even (x / 2 ^ nat (?b - 53))"
    by (rule round_half_even_ge)
  then show ?thesis
    using False by (simp add: round_double_def Let_def)
qed

lemma finite_double_bound:
  assumes "finite_double (Finite s k)"
  shows "real k < 2 ^ 2098 - 2 ^ 2044"
proof (rule ccontr)
  assume "\<not> real k < 2 ^ 2098 - 2 ^ 2044"
  then have big: "2 ^ 2098 - 2 ^ 2044 \<le> real k" by simp
  have "(2::real) ^ 53 \<le> 2 ^ 2098 - 2 ^ 2044" by simp
  with big have "\<not> real k < 2 ^ 53" by linarith
  with big have "round_double s (real k) = Infinity s"
    by (simp add: round_double_def)
  with assms show False by (simp add: finite_double_def)
qed

lemma round_double_exact:
  assumes "0 < m" and "m < 2 ^ 53" and "e \<le> 2045"
  shows "round_double s (real (m * 2 ^ e)) = Finite s (m * 2 ^ e)"
proof (cases "real (m * 2 ^ e) < 2 ^ 53")
  case True
  then show ?thesis
    by (simp only: round_double_def round_half_even_nat if_True)
next
  case False
  define x where "x = real (m * 2 ^ e)"
  let ?b = "bitlen (int m)"
  have b_le: "?b \<le> 53"
    using assms(2) less_power_nat_iff_bitlen [of m 53] by simp
  have floor_eq: "\<lfloor>x\<rfloor> = int m * 2 ^ e"
    unfolding x_def by (metis floor_of_nat of_nat_mult of_nat_numeral of_nat_power)
  have len: "bitlen \<lfloor>x\<rfloor> = ?b + int e"
    using assms(1) by (simp only: floor_eq) simp
  have "int m < 2 ^ nat ?b"
    using bitlen_bounds [of "int m"] assms(1) by simp
  then have "m < 2 ^ nat ?b"
    by (metis of_nat_less_iff of_nat_numeral of_nat_power)
  then have upper: "m * 2 ^ e < 2 ^ nat ?b * 2 ^ e"
    by (simp only: mult_less_cancel2) simp
  from False have lower: "(2::nat) ^ 53 \<le> m * 2 ^ e"
    by (metis not_less of_nat_le_iff of_nat_numeral of_nat_power)
  from lower upper have "(2::nat) ^ 53 < 2 ^ nat ?b * 2 ^ e"
    by (rule le_less_trans)
  then have "(2::nat) ^ 53 < 2 ^ (nat ?b + e)"
    by (simp only: power_add)
  then have more: "53 < nat ?b + e"
    by (simp only: power_strict_increasing_iff rel_simps)
  define shift where "shift = nat (bitlen \<lfloor>x\<rfloor> - 53)"
  have shift_le: "shift \<le> e" using b_le by (simp add: shift_def len)
  have split: "m * 2 ^ e = (m * 2 ^ (e - shift)) * 2 ^ shift"
    using shift_le by (simp add: power_add [symmetric])
  have quot: "x / 2 ^ shift = real (m * 2 ^ (e - shift))"
    unfolding x_def by (subst split) simp
  have small: "\<not> 2 ^ 2098 - 2 ^ 2044 \<le> x"
  proof -
    have "m * 2 ^ e \<le> (2 ^ 53 - 1) * 2 ^ 2045"
      using assms(2,3) by (intro mult_mono power_increasing) simp_all
    then have "x \<le> real ((2 ^ 53 - 1) * 2 ^ 2045)"
      unfolding x_def by (simp only: of_nat_le_iff)
    also have "\<dots> < 2 ^ 2098 - 2 ^ 2044" by simp
    finally show ?thesis by simp
  qed
  have large: "\<not> x < 2 ^ 53" unfolding x_def by (rule False)
  have "round_double s x = Finite s (round_half_even (x / 2 ^ shift) * 2 ^ shift)"
    using large small by (simp only: round_double_def Let_def shift_def if_False)
  also have "\<dots> = Finite s (m * 2 ^ e)"
    by (simp only: quot round_half_even_nat split [symmetric])
  finally show ?thesis by (simp only: x_def)
qed

lemma finite_double_exact:
  "0 < m \<Longrightarrow> m < 2 ^ 53 \<Longrightarrow> e \<le> 2045 \<Longrightarrow> finite_double (Finite s (m * 2 ^ e))"
  by (simp only: finite_double_def double.case round_double_exact)


subsection \<open>The sample floats are the floats of their literals\<close>

lemma double_of_real_3: "double_of_real 3 = three"
proof -
  have eq: "\<bar>3::real\<bar> * 2 ^ 1074 = real (3 * 2 ^ 1074)" by simp
  have "round_double False (real (3 * 2 ^ 1074)) = Finite False (3 * 2 ^ 1074)"
    by (rule round_double_exact) simp_all
  moreover have "((3::real) < 0) = False" by simp
  ultimately show ?thesis
    by (simp only: double_of_real_def three_def eq)
qed

lemma double_of_real_1e_322: "double_of_real (1 / 10 ^ 322) = tiny_capital"
proof -
  let ?x = "\<bar>1 / 10 ^ 322 :: real\<bar> * 2 ^ 1074"
  have floor: "\<lfloor>?x\<rfloor> = 20" by (simp add: floor_eq_iff)
  have small: "?x < 2 ^ 53" by simp
  have rest: "?x - real (nat \<lfloor>?x\<rfloor>) < 1 / 2" by (simp only: floor) simp
  have "round_half_even ?x = 20"
    using rest by (simp only: round_half_even_def Let_def floor if_True)
  with small show ?thesis
    by (simp only: double_of_real_def round_double_def tiny_capital_def if_True) simp
qed

lemma double_of_real_1_100: "double_of_real (1 / 100) = one_percent"
proof -
  let ?x = "\<bar>1 / 100 :: real\<bar> * 2 ^ 1074"
  have len: "bitlen \<lfloor>?x\<rfloor> = 1068"
  proof (rule antisym)
    show "bitlen \<lfloor>?x\<rfloor> \<le> 1068"
      by (simp add: bitlen_le_iff_power floor_less_iff)
    show "1068 \<le> bitlen \<lfloor>?x\<rfloor>"
      by (simp add: bitlen_ge_iff_power le_floor_iff)
  qed
  have large: "\<not> ?x < 2 ^ 53" by simp
  have finite: "\<not> 2 ^ 2098 - 2 ^ 2044 \<le> ?x" by simp
  have quot: "?x / 2 ^ nat (1068 - 53) = 2 ^ 59 / 100" by simp
  have "round_half_even (2 ^ 59 / 100) = 5764607523034235"
    by (simp add: round_half_even_def Let_def)
  then have "round_double False ?x = Finite False (5764607523034235 * 2 ^ nat (1068 - 53))"
    using large finite by (simp only: round_double_def Let_def len quot if_False)
  then show ?thesis
    by (simp add: double_of_real_def one_percent_def)
qed

lemma double_of_real_5: "double_of_real 5 = five"
proof -
  have eq: "\<bar>5::real\<bar> * 2 ^ 1074 = real (5 * 2 ^ 1074)" by simp
  have "round_double False (real (5 * 2 ^ 1074)) = Finite False (5 * 2 ^ 1074)"
    by (rule round_double_exact) simp_all
  moreover have "((5::real) < 0) = False" by simp
  ultimately show ?thesis
    by (simp only: double_of_real_def five_def eq)
qed

lemma double_of_real_10000: "double_of_real 10000 = ten_thousand"
proof -
  have eq: "\<bar>10000::real\<bar> * 2 ^ 1074 = real (10000 * 2 ^ 1074)" by simp
  have "round_double False (real (10000 * 2 ^ 1074)) = Finite False (10000 * 2 ^ 1074)"
    by (rule round_double_exact) simp_all
  moreover have "((10000::real) < 0) = False" by simp
  ultimately show ?thesis
    by (simp only: double_of_real_def ten_thousand_def eq)
qed


subsection \<open>Signs of float results\<close>

lemma positive_double:
  assumes "finite_double d" and "float_lt (Finite False 0) d"
  obtains k where "d = Finite False k" and "0 < k"
proof -
  from assms(1) obtain s k where d: "d = Finite s k"
    by (cases d) (simp_all add: finite_double_def)
  with assms(2) have "\<not> s" and "0 < k"
    by (auto simp add: signed_def split: if_splits)
  with d that show thesis by simp
qed

lemma below_zero:
  assumes "(\<exists>q. cap = Finite True q) \<or> cap = Infinity True"
  shows "float_lt cap (Finite False 0) \<or> cap = Finite True 0"
  using assms by (auto simp add: signed_def)

lemma less_than_below_zero:
  assumes "(\<exists>q. cap = Finite True q) \<or> cap = Infinity True" and "float_lt h cap"
  shows "float_lt h (Finite False 0)"
proof (cases h)
  case (Finite s n)
  with assms show ?thesis by (auto simp add: signed_def split: if_splits)
next
  case (Infinity s)
  with assms show ?thesis by auto
next
  case NaN
  with assms show ?thesis by simp
qed

lemma not_less_than_below_zero:
  assumes "(\<exists>q. cap = Finite True q) \<or> cap = Infinity True"
    and "(\<exists>n. h = Finite False n) \<or> h = Infinity False \<or> h = Finite True 0"
  shows "\<not> float_lt h cap"
  using assms by (auto simp add: signed_def)

lemma float_of_int_finite:
  assumes "\<bar>n\<bar> < 2 ^ 1023"
  shows "\<exists>h. float_of_int n = Inr (Finite (n < 0) h)"
proof -
  have "real_of_int \<bar>n\<bar> < 2 ^ 1023"
    using assms by (metis of_int_less_iff of_int_numeral of_int_power)
  then have "real_of_int \<bar>n\<bar> * 2 ^ 1074 < 2 ^ 1023 * 2 ^ 1074"
    by (simp only: mult_less_cancel_right_pos zero_less_power zero_less_numeral)
  also have "\<dots> \<le> (2 ^ 2098 - 2 ^ 2044 :: real)" by simp
  finally obtain h
    where "round_double (n < 0) (real_of_int \<bar>n\<bar> * 2 ^ 1074) = Finite (n < 0) h"
    using round_double_finite by blast
  then show ?thesis by (simp add: float_of_int_def)
qed

lemma sample_doubles:
  "finite_double tiny_capital" "finite_double one_percent"
  "finite_double three" "finite_double five" "finite_double ten_thousand"
proof -
  show "finite_double ten_thousand"
    unfolding ten_thousand_def by (rule finite_double_exact) simp_all
  show "finite_double tiny_capital"
    using finite_double_exact [of 20 0 False] by (simp add: tiny_capital_def)
  show "finite_double one_percent"
    unfolding one_percent_def by (rule finite_double_exact) simp_all
  show "finite_double three"
    unfolding three_def by (rule finite_double_exact) simp_all
  show "finite_double five"
    unfolding five_def by (rule finite_double_exact) simp_all
qed

lemma sample_order:
  "float_lt (Finite False 0) tiny_capital" "float_lt (Finite False 0) one_percent"
  "float_lt three five" "\<not> float_lt three (Finite False 0)"
  "float_lt (Finite False 0) ten_thousand"
  by (simp_all add: tiny_capital_def one_percent_def three_def five_def ten_thousand_def
        signed_def)

subsection \<open>The sign of the position size\<close>

text \<open>
  Claim C8 says that for a positive capital, a positive risk tolerance and a stop-loss
  price above a non-negative entry price the position size is strictly negative,
  neither an error nor a value clamped to zero.

  On floats the product \<^verbatim>\<open>total_capital * risk_tolerance\<close> and the quotient of line 56
  can underflow to zero, and the position size is then the negative zero \<^verbatim>\<open>-0.0\<close>, for
  which \<^verbatim>\<open>-0.0 < 0\<close> is false: with a capital of \<^verbatim>\<open>1e-322\<close>, a tolerance of \<^verbatim>\<open>0.01\<close>, an
  entry price of \<^verbatim>\<open>3.0\<close>, a stop-loss price of \<^verbatim>\<open>5.0\<close> and one contract, all of them
  values the widgets accept, the script computes \<^verbatim>\<open>0.0 / -2.0 = -0.0\<close> and
  \<^verbatim>\<open>min(-0.0, 300.0) = -0.0\<close>.
\<close>

theorem position_size_underflow_counterexample:
  "finite_double tiny_capital \<and> finite_double one_percent
   \<and> finite_double three \<and> finite_double five
   \<and> float_lt (Finite False 0) tiny_capital \<and> float_lt (Finite False 0) one_percent
   \<and> float_lt three five \<and> \<not> float_lt three (Finite False 0)
   \<and> position_size_double tiny_capital one_percent three five 1 = Inr (Finite True 0)
   \<and> \<not> float_lt (Finite True 0) (Finite False 0)"
proof -
  note inputs = sample_doubles(1-4)
  note order = sample_order(1-4)
  have "real 20 * real (5764607523034235 * 2 ^ 1015) / 2 ^ 1074
          = (115292150460684700 / 2 ^ 59 :: real)"
    by simp
  then have budget: "float_mul tiny_capital one_percent = Finite False 0"
    by (simp add: tiny_capital_def one_percent_def round_double_def round_half_even_def)
  have "round_double True (real (1 * 2 ^ 1075)) = Finite True (1 * 2 ^ 1075)"
    by (rule round_double_exact) simp_all
  then have diff: "float_sub three five = Finite True (2 ^ 1075)"
    by (simp add: three_def five_def signed_def)
  have capacity: "float_truediv (Finite False 0) (Finite True (2 ^ 1075)) = Inr (Finite True 0)"
    by (simp add: float_truediv_def round_double_def round_half_even_def)
  have "round_double False (real (100 * 2 ^ 1074)) = Finite False (100 * 2 ^ 1074)"
    by (rule round_double_exact) simp_all
  then have hundreds: "float_of_int (1 * 100) = Inr (Finite False (100 * 2 ^ 1074))"
    by (simp add: float_of_int_def)
  have "round_double False (real (300 * 2 ^ 1074)) = Finite False (300 * 2 ^ 1074)"
    by (rule round_double_exact) simp_all
  then have holding: "float_mul (Finite False (100 * 2 ^ 1074)) three
                        = Finite False (300 * 2 ^ 1074)"
    by (simp add: three_def)
  have smaller: "float_min (Finite True 0) (Finite False (300 * 2 ^ 1074)) = Finite True 0"
    by (simp add: float_min_def signed_def)
  have "position_size_double tiny_capital one_percent three five 1 = Inr (Finite True 0)"
    by (simp only: position_size_double_def Let_def budget diff capacity hundreds holding
          smaller sum.case)
  moreover have "\<not> float_lt (Finite True 0) (Finite False 0)"
    by (simp add: signed_def)
  ultimately show ?thesis using inputs order by simp
qed

text \<open>
  Claim C8, as amended. For finite floats with a positive capital, a positive risk
  tolerance and a stop-loss price above a non-negative entry price, and for every number
  of contracts that converts to a float, the position size is a value, not an error, and
  it is never positive and never the positive zero: it is strictly negative, or it is the
  negative zero \<^verbatim>\<open>-0.0\<close> (when the risk budget or the quotient underflows). With a
  non-negative number of contracts it is the quotient
  \<^verbatim>\<open>max_risk / (entry_price - stop_loss_price)\<close> that the minimum selects.
\<close>

theorem position_size_double_sign:
  assumes "finite_double tc" and "finite_double rt"
    and "finite_double entry" and "finite_double stop"
    and "float_lt (Finite False 0) tc" and "float_lt (Finite False 0) rt"
    and "float_lt entry stop" and "\<not> float_lt entry (Finite False 0)"
    and "\<bar>c\<bar> * 100 < 2 ^ 1023"
  shows "\<exists>v. position_size_double tc rt entry stop c = Inr v
           \<and> (float_lt v (Finite False 0) \<or> v = Finite True 0)
           \<and> (0 \<le> c \<longrightarrow> Inr v = float_truediv (float_mul tc rt) (float_sub entry stop))"
proof -
  obtain k1 where tc: "tc = Finite False k1"
    using positive_double [OF assms(1) assms(5)] by blast
  obtain k2 where rt: "rt = Finite False k2"
    using positive_double [OF assms(2) assms(6)] by blast
  obtain se ke where entry: "entry = Finite se ke"
    using assms(3) by (cases entry) (simp_all add: finite_double_def)
  obtain ss ks where stop: "stop = Finite ss ks"
    using assms(4) by (cases stop) (simp_all add: finite_double_def)
  have entry_sign: "0 \<le> signed se ke"
    using assms(8) by (simp add: entry signed_def split: if_splits)
  have below: "signed se ke < signed ss ks"
    using assms(7) by (simp add: entry stop)
  with entry_sign have stop_sign: "signed ss ks = int ks"
    by (simp add: signed_def split: if_splits)

  \<comment> \<open>the risk budget is zero, positive or plus infinity\<close>
  let ?budget = "float_mul tc rt"
  have budget: "(\<exists>b. ?budget = Finite False b) \<or> ?budget = Infinity False"
    using round_double_sign [of False "real k1 * real k2 / 2 ^ 1074"]
    by (simp add: tc rt)

  \<comment> \<open>the price difference is finite, negative and not zero\<close>
  let ?d = "signed se ke - signed ss ks"
  have d_neg: "?d < 0" using below by simp
  have "\<bar>?d\<bar> \<le> int ks" using entry_sign below stop_sign by simp
  then have "real_of_int \<bar>?d\<bar> \<le> real ks"
    by (metis of_int_le_iff of_int_of_nat_eq)
  also have "\<dots> < 2 ^ 2098 - 2 ^ 2044"
    using assms(4) unfolding stop by (rule finite_double_bound)
  finally obtain n where n: "round_double True (real_of_int \<bar>?d\<bar>) = Finite True n"
    using round_double_finite by blast
  have "1 \<le> \<bar>?d\<bar>" using d_neg by simp
  then have "1 \<le> real_of_int \<bar>?d\<bar>"
    by (metis of_int_1_le_iff)
  then have "round_double True (real_of_int \<bar>?d\<bar>) \<noteq> Finite True 0"
    by (rule round_double_not_zero)
  with n have n_pos: "n \<noteq> 0" by auto
  have diff: "float_sub entry stop = Finite True n"
    using d_neg n by (simp add: entry stop Let_def)

  \<comment> \<open>so the division raises nothing and its result has the minus sign\<close>
  let ?cap = "ieee_div ?budget (Finite True n)"
  have quotient: "float_truediv ?budget (float_sub entry stop) = Inr ?cap"
    using n_pos by (simp add: float_truediv_def diff)
  have cap: "(\<exists>q. ?cap = Finite True q) \<or> ?cap = Infinity True"
  proof -
    from budget show ?thesis
    proof
      assume "\<exists>b. ?budget = Finite False b"
      then obtain b where b: "?budget = Finite False b" ..
      show ?thesis
        using round_double_sign [of True "real b / real n * 2 ^ 1074"] n_pos
        by (simp add: b)
    next
      assume "?budget = Infinity False"
      then show ?thesis by simp
    qed
  qed

  \<comment> \<open>the other argument of min\<close>
  have "\<bar>c * 100\<bar> < 2 ^ 1023"
    using assms(9) by (simp add: abs_mult)
  then obtain h where hundreds: "float_of_int (c * 100) = Inr (Finite (c * 100 < 0) h)"
    using float_of_int_finite by blast
  let ?hold = "float_mul (Finite (c * 100 < 0) h) entry"
  have result: "position_size_double tc rt entry stop c = Inr (float_min ?cap ?hold)"
    by (simp add: position_size_double_def Let_def quotient hundreds)

  have sign: "float_lt (float_min ?cap ?hold) (Finite False 0) \<or> float_min ?cap ?hold = Finite True 0"
  proof (cases "float_lt ?hold ?cap")
    case True
    then have "float_lt ?hold (Finite False 0)"
      using cap less_than_below_zero by blast
    with True show ?thesis by (simp add: float_min_def)
  next
    case False
    with below_zero [OF cap] show ?thesis by (simp add: float_min_def)
  qed

  have selected: "float_min ?cap ?hold = ?cap" if "0 \<le> c"
  proof -
    from that have plus: "\<not> c * 100 < 0" by simp
    have "(\<exists>m. ?hold = Finite False m) \<or> ?hold = Infinity False \<or> ?hold = Finite True 0"
    proof (cases se)
      case True
      with entry_sign have "ke = 0" by (simp add: signed_def)
      then show ?thesis
        using plus True by (simp add: entry round_double_def round_half_even_def)
    next
      case False
      then show ?thesis
        using plus round_double_sign [of False "real h * real ke / 2 ^ 1074"]
        by (auto simp add: entry)
    qed
    with cap have "\<not> float_lt ?hold ?cap"
      by (rule not_less_than_below_zero)
    then show ?thesis by (simp add: float_min_def)
  qed

  from result sign selected quotient show ?thesis by auto
qed

theorem position_size_double_sign_witness:
  "finite_double ten_thousand \<and> finite_double one_percent
   \<and> finite_double three \<and> finite_double five
   \<and> float_lt (Finite False 0) ten_thousand \<and> float_lt (Finite False 0) one_percent
   \<and> float_lt three five \<and> \<not> float_lt three (Finite False 0)
   \<and> \<bar>1 :: int\<bar> * 100 < 2 ^ 1023 \<and> (0 :: int) \<le> 1
   \<and> (\<exists>v. position_size_double ten_thousand one_percent three five 1 = Inr v
          \<and> (float_lt v (Finite False 0) \<or> v = Finite True 0)
          \<and> Inr v = float_truediv (float_mul ten_thousand one_percent) (float_sub three five))"
proof -
  note inputs = sample_doubles(5) sample_doubles(2-4)
  note order = sample_order(5) sample_order(2-4)
  have bound: "\<bar>1 :: int\<bar> * 100 < 2 ^ 1023" by simp
  from position_size_double_sign [OF inputs order bound] inputs order bound
  show ?thesis by simp
qed

subsection \<open>The Greeks\<close>

text \<open>
  Claim C4. For every option type, stock price, strike price, time to expiry,
  volatility and interest rate, \<open>calculate_greeks\<close> returns a mapping with exactly the
  five keys Delta, Gamma, Theta, Vega and Rho, where Delta is 0.5 for the option type
  "Call" and -0.5 otherwise, Gamma is 0.1, Theta is -0.01 times the time to expiry,
  Vega is 0.2 times the volatility and Rho is 0.05 times the interest rate.
\<close>

theorem calculate_greeks_values:
  "dom (calculate_greeks ot sp k t v r) = {''Delta'', ''Gamma'', ''Theta'', ''Vega'', ''Rho''}
   \<and> calculate_greeks ot sp k t v r ''Delta'' = Some (if ot = ''Call'' then 0.5 else - 0.5)
   \<and> calculate_greeks ot sp k t v r ''Gamma'' = Some 0.1
   \<and> calculate_greeks ot sp k t v r ''Theta'' = Some (- 0.01 * t)
   \<and> calculate_greeks ot sp k t v r ''Vega'' = Some (0.2 * v)
   \<and> calculate_greeks ot sp k t v r ''Rho'' = Some (0.05 * r)"
proof -
  have "dom (calculate_greeks ot sp k t v r) = {''Delta'', ''Gamma'', ''Theta'', ''Vega'', ''Rho''}"
    by (auto simp add: calculate_greeks_def Let_def)
  with calculate_greeks_lookup [of ot sp k t v r] show ?thesis
    by simp
qed

text \<open>
  Claim C10. The result of \<open>calculate_greeks\<close> does not depend on the stock price or on
  the strike price: two calls that agree on the option type, the time to expiry, the
  volatility and the interest rate return equal mappings, whatever their stock and
  strike prices are.
\<close>

theorem calculate_greeks_ignores_prices:
  "calculate_greeks ot sp1 k1 t v r = calculate_greeks ot sp2 k2 t v r"
  by (simp add: calculate_greeks_def)

subsection \<open>Totality of the helper functions\<close>

text \<open>
  Claim C6. \<open>calculate_greeks\<close> and \<open>calculate_risk_reward\<close> are total: on every input
  they return a value and raise nothing. For \<open>calculate_risk_reward\<close> the result is
  never an error, and a finite non-zero result, which only the division produces, occurs
  only with a strictly positive divisor entry - stop. For \<open>calculate_greeks\<close>, whose
  operations cannot raise, every one of the five keys has a value, so no later lookup
  fails.
\<close>

theorem helpers_never_raise:
  "(\<exists>res. calculate_risk_reward entry target stop = Inr res)
   \<and> (\<forall>err. calculate_risk_reward entry target stop \<noteq> Inl err)
   \<and> (calculate_risk_reward entry target stop = Inr (Fin q) \<and> q \<noteq> 0 \<longrightarrow> 0 < entry - stop)
   \<and> (\<exists>d g th ve rh.
        calculate_greeks ot sp k t v r ''Delta'' = Some d
        \<and> calculate_greeks ot sp k t v r ''Gamma'' = Some g
        \<and> calculate_greeks ot sp k t v r ''Theta'' = Some th
        \<and> calculate_greeks ot sp k t v r ''Vega'' = Some ve
        \<and> calculate_greeks ot sp k t v r ''Rho'' = Some rh)"
proof -
  have total: "\<exists>res. calculate_risk_reward entry target stop = Inr res"
    by (simp add: calculate_risk_reward_def truediv_def Let_def)
  then have no_error: "\<forall>err. calculate_risk_reward entry target stop \<noteq> Inl err"
    by auto
  have divisor: "0 < entry - stop"
    if "calculate_risk_reward entry target stop = Inr (Fin q)" and "q \<noteq> 0"
    using that by (simp add: calculate_risk_reward_def truediv_def Let_def split: if_splits)
  have greeks: "\<exists>d g th ve rh.
        calculate_greeks ot sp k t v r ''Delta'' = Some d
        \<and> calculate_greeks ot sp k t v r ''Gamma'' = Some g
        \<and> calculate_greeks ot sp k t v r ''Theta'' = Some th
        \<and> calculate_greeks ot sp k t v r ''Vega'' = Some ve
        \<and> calculate_greeks ot sp k t v r ''Rho'' = Some rh"
    using calculate_greeks_lookup [of ot sp k t v r] by blast
  from total no_error divisor greeks show ?thesis by blast
qed

theorem helpers_never_raise_witness:
  "calculate_risk_reward 5 8 3 = Inr (Fin (3 / 2)) \<and> (3 / 2 :: real) \<noteq> 0 \<and> (0::real) < 5 - 3"
proof -
  have ratio: "calculate_risk_reward 5 8 3 = Inr (Fin (3 / 2))"
    by (simp add: calculate_risk_reward_def truediv_def Let_def)
  have "(3 / 2 :: real) \<noteq> 0" by simp
  with ratio helpers_never_raise [of 5 8 3 "3 / 2"] show ?thesis by blast
qed





subsection \<open>The trade history\<close>



subsection \<open>Determinism of the risk analysis\<close>

lemma risk_analysis_reads:
  assumes "option_type w1 = option_type w2"
    and "expiration_date w1 - d1 = expiration_date w2 - d2"
    and "volatility w1 = volatility w2" and "interest_rate w1 = interest_rate w2"
    and "entry_price w1 = entry_price w2" and "contracts w1 = contracts w2"
    and "stop_loss_price w1 = stop_loss_price w2"
    and "take_profit_price w1 = take_profit_price w2"
    and "total_capital w1 = total_capital w2" and "risk_tolerance w1 = risk_tolerance w2"
  shows "risk_analysis w1 d1 = risk_analysis w2 d2"
  unfolding risk_analysis_def Let_def calculate_greeks_def assms
  by (rule refl)

text \<open>
  Claim C7. The risk analysis is deterministic and reads no hidden state. The report of
  a run (the Greeks, the risk-to-reward ratio, the position size, the maximum risk and
  the time to expiry, or the error raised) is determined by the trade inputs: two runs
  that agree on the option type, the volatility, the interest rate, the entry,
  stop-loss and take-profit prices, the number of contracts, the capital, the risk
  tolerance and the number of days to expiry give the same report. This holds whatever
  the two sessions hold, whatever the button, the identifier drawn and the clock are,
  whatever the fields the calculation does not use are (the symbol, the prices of the
  underlying, the asset class and the region), in either order and whatever runs happen
  in between. Of the day of the run only the number of days to expiry is read, which is
  a field of the trade inputs. The analysis changes no state: a run in which nothing is
  saved leaves the stored history as it was.
\<close>

theorem risk_report_determined_by_inputs:
  assumes "option_type w1 = option_type w2"
    and "expiration_date w1 - today env1 = expiration_date w2 - today env2"
    and "volatility w1 = volatility w2" and "interest_rate w1 = interest_rate w2"
    and "entry_price w1 = entry_price w2" and "contracts w1 = contracts w2"
    and "stop_loss_price w1 = stop_loss_price w2"
    and "take_profit_price w1 = take_profit_price w2"
    and "total_capital w1 = total_capital w2" and "risk_tolerance w1 = risk_tolerance w2"
  shows "fst (script_run w1 env1 ss1) = fst (script_run w2 env2 ss2)
       \<and> fst (script_run w2 env2 (run_all (snd (script_run w1 env1 ss1)) runs))
           = fst (script_run w1 env1 ss1)
       \<and> (\<not> save_clicked env1 \<longrightarrow>
            init_trade_history (snd (script_run w1 env1 ss1)) = init_trade_history ss1)"
proof -
  have same: "risk_analysis w1 (today env1) = risk_analysis w2 (today env2)"
    using assms by (rule risk_analysis_reads)
  have report: "fst (script_run w2 env2 ss) = fst (script_run w1 env1 ss')" for ss ss'
    by (simp only: script_run_report same)
  have "init_trade_history (snd (script_run w1 env1 ss1)) = init_trade_history ss1"
    if "\<not> save_clicked env1"
  proof -
    from that have "\<not> saves (w1, env1)" by (simp add: saves_def)
    then have "appended (w1, env1) = []" by (rule appended_not_saves)
    then show ?thesis by (simp add: script_run_history)
  qed
  with report [of ss2 ss1] report [of "run_all (snd (script_run w1 env1 ss1)) runs" ss1]
  show ?thesis by simp
qed

theorem risk_report_determined_by_inputs_witness:
  "option_type default_inputs = option_type later_inputs
   \<and> expiration_date default_inputs - 0 = expiration_date later_inputs - 30
   \<and> volatility default_inputs = volatility later_inputs
   \<and> interest_rate default_inputs = interest_rate later_inputs
   \<and> entry_price default_inputs = entry_price later_inputs
   \<and> contracts default_inputs = contracts later_inputs
   \<and> stop_loss_price default_inputs = stop_loss_price later_inputs
   \<and> take_profit_price default_inputs = take_profit_price later_inputs
   \<and> total_capital default_inputs = total_capital later_inputs
   \<and> risk_tolerance default_inputs = risk_tolerance later_inputs
   \<and> underlying_asset default_inputs \<noteq> underlying_asset later_inputs
   \<and> stock_price default_inputs \<noteq> stock_price later_inputs
   \<and> \<not> save_clicked \<lparr>today = 0, save_clicked = False, uuid4 = uuid_c, now = 3\<rparr>
   \<and> fst (script_run default_inputs
            \<lparr>today = 0, save_clicked = False, uuid4 = uuid_c, now = 3\<rparr> None)
       = fst (script_run later_inputs
            \<lparr>today = 30, save_clicked = True, uuid4 = uuid_b, now = 9\<rparr>
            (run_all None example_session))
   \<and> init_trade_history (snd (script_run default_inputs
            \<lparr>today = 0, save_clicked = False, uuid4 = uuid_c, now = 3\<rparr> None))
       = init_trade_history None"
proof -
  let ?env1 = "\<lparr>today = 0, save_clicked = False, uuid4 = uuid_c, now = 3\<rparr>"
  let ?env2 = "\<lparr>today = 30, save_clicked = True, uuid4 = uuid_b, now = 9\<rparr>"
  have fields:
    "option_type default_inputs = option_type later_inputs"
    "expiration_date default_inputs - today ?env1 = expiration_date later_inputs - today ?env2"
    "volatility default_inputs = volatility later_inputs"
    "interest_rate default_inputs = interest_rate later_inputs"
    "entry_price default_inputs = entry_price later_inputs"
    "contracts default_inputs = contracts later_inputs"
    "stop_loss_price default_inputs = stop_loss_price later_inputs"
    "take_profit_price default_inputs = take_profit_price later_inputs"
    "total_capital default_inputs = total_capital later_inputs"
    "risk_tolerance default_inputs = risk_tolerance later_inputs"
    by (simp_all add: later_inputs_def default_inputs_def)
  have others: "underlying_asset default_inputs \<noteq> underlying_asset later_inputs"
    "stock_price default_inputs \<noteq> stock_price later_inputs"
    by (simp_all add: later_inputs_def default_inputs_def)
  have idle: "\<not> save_clicked ?env1" by simp
  from risk_report_determined_by_inputs
         [OF fields, of None "run_all None example_session" "[]"] idle
  have "fst (script_run default_inputs ?env1 None)
          = fst (script_run later_inputs ?env2 (run_all None example_session))"
    and "init_trade_history (snd (script_run default_inputs ?env1 None))
          = init_trade_history None"
    by blast+
  with fields others idle show ?thesis by simp
qed

end
